theory Spec2Isabelle
  imports Complex_Main "HOL-Library.Sublist"
begin

section \<open>Data model (types.ts)\<close>

text \<open>
  A JavaScript \<open>Date\<close> is its time value (milliseconds since the epoch); every
  \<open>new Date()\<close> of the source reads the clock, and the model takes each reading as a
  parameter. \<open>uuidv4()\<close> is a random source; the model takes the generated identifier
  as a parameter as well. Strings are ASCII character lists.
\<close>

type_synonym date = int

text \<open>
  A JavaScript \<open>number\<close>: a finite value, \<open>NaN\<close> or an infinity. A finite value is
  the rational it denotes. The source subtracts 1 from a number, compares the result
  with 0 and with an array length, and uses it as an array index; on each of these the
  double arithmetic of JavaScript decides as the exact arithmetic does (the difference
  is exact unless the number is below 1/2 or beyond 2^53, where both are negative, or
  both at least the length).
\<close>

datatype number = Finite rat | NaN | PosInfinity | NegInfinity

text \<open>\<open>n - 1\<close>, \<open>n < 0\<close>, \<open>n >= xs.length\<close>, \<open>isNaN(n)\<close> and \<open>!n\<close> for a number.\<close>

definition minusOne :: "number \<Rightarrow> number" where
  "minusOne n = (case n of Finite r \<Rightarrow> Finite (r - 1) | other \<Rightarrow> other)"

definition lessThanZero :: "number \<Rightarrow> bool" where
  "lessThanZero n = (case n of Finite r \<Rightarrow> r < 0 | NegInfinity \<Rightarrow> True | other \<Rightarrow> False)"

definition atLeastLength :: "number \<Rightarrow> nat \<Rightarrow> bool" where
  "atLeastLength n len =
     (case n of Finite r \<Rightarrow> of_nat len \<le> r | PosInfinity \<Rightarrow> True | other \<Rightarrow> False)"

definition isNaN :: "number \<Rightarrow> bool" where
  "isNaN n = (n = NaN)"

definition falsyNumber :: "number \<Rightarrow> bool" where
  "falsyNumber n = (n = Finite 0 \<or> n = NaN)"

text \<open>
  \<open>xs[n]\<close> for a number \<open>n\<close>: the element when \<open>n\<close> is an integer index of the
  array, \<open>undefined\<close> (\<open>None\<close>) otherwise, as for a fraction or \<open>NaN\<close>.
\<close>

definition arrayIndex :: "number \<Rightarrow> nat option" where
  "arrayIndex n =
     (case n of
        Finite r \<Rightarrow> if 0 \<le> r \<and> r = of_int \<lfloor>r\<rfloor> then Some (nat \<lfloor>r\<rfloor>) else None
      | other \<Rightarrow> None)"

definition elementAt :: "'a list \<Rightarrow> number \<Rightarrow> 'a option" where
  "elementAt xs n =
     (case arrayIndex n of
        Some i \<Rightarrow> if i < length xs then Some (xs ! i) else None
      | None \<Rightarrow> None)"

datatype priority = High | Medium | Low

text \<open>
  \<open>interface TodoItem\<close>. Optional properties are \<open>option\<close>s. The field \<open>id\<close> is
  called \<open>item_id\<close> here (\<open>id\<close> is the identity function of HOL). The optional
  \<open>subtasks\<close> property is left out: a record cannot contain itself, \<open>createTodo\<close>
  always writes the empty array there and no operation modelled below reads it.
\<close>

record TodoItem =
  item_id :: string
  title :: string
  description :: "string option"
  dueDate :: "date option"
  priority :: "priority option"
  completed :: bool
  categories :: "string list option"
  tags :: "string list option"
  dependencies :: "string list option"
  createdAt :: date
  updatedAt :: date

text \<open>The \<open>options\<close> argument of \<open>createTodo\<close> and \<open>addTodoToList\<close>.\<close>

record todo_options =
  opt_description :: "string option"
  opt_dueDate :: "date option"
  opt_priority :: "priority option"
  opt_categories :: "string list option"
  opt_tags :: "string list option"

text \<open>
  \<open>Partial<TodoItem>\<close>, the payload of \<open>updateTodo\<close>: every property of a todo may be
  present (\<open>Some\<close>) or missing (\<open>None\<close>); a present optional property may itself
  carry \<open>undefined\<close> (\<open>Some None\<close>).
\<close>

record todo_updates =
  upd_id :: "string option"
  upd_title :: "string option"
  upd_description :: "string option option"
  upd_dueDate :: "date option option"
  upd_priority :: "priority option option"
  upd_completed :: "bool option"
  upd_categories :: "string list option option"
  upd_tags :: "string list option option"
  upd_dependencies :: "string list option option"
  upd_createdAt :: "date option"
  upd_updatedAt :: "date option"

text \<open>
  The \<open>reference\<close> argument of \<open>resolveTodoReference\<close>, typed as the source declares
  it: \<open>shortId\<close> and \<open>confirmTitle\<close> are strings, \<open>todoNumber\<close> is a number, and a
  property that is missing or \<open>undefined\<close> is \<open>None\<close>.
\<close>

record reference =
  shortId :: "string option"
  todoNumber :: "number option"
  confirmTitle :: "string option"

text \<open>
  \<open>resolveTodoReference\<close> returns \<open>{todo: null, error: message}\<close> (\<open>Inl\<close>) or
  \<open>{todo}\<close> (\<open>Inr\<close>), where \<open>todo\<close> is a todo or, after an index that is no integer,
  \<open>undefined\<close> (\<open>Inr None\<close>). The four messages of the source are the four
  constructors, with the values the message interpolates.
\<close>

datatype resolve_error =
    NoTodoWithShortId string
  | InvalidTodoNumber number
  | NoIdentifier
  | TitleMismatch string string

section \<open>String primitives\<close>

definition toLowerChar :: "char \<Rightarrow> char" where
  "toLowerChar c =
     (let n = (of_char c :: nat) in if 65 \<le> n \<and> n \<le> 90 then char_of (n + 32) else c)"

definition toLowerCase :: "string \<Rightarrow> string" where
  "toLowerCase s = map toLowerChar s"

text \<open>\<open>a.startsWith(b)\<close> and \<open>a.includes(b)\<close>.\<close>

definition startsWith :: "string \<Rightarrow> string \<Rightarrow> bool" where
  "startsWith a b = prefix b a"

definition includesStr :: "string \<Rightarrow> string \<Rightarrow> bool" where
  "includesStr a b = sublist b a"

text \<open>JavaScript truthiness of an optional string: defined and not empty.\<close>

definition truthy :: "string option \<Rightarrow> bool" where
  "truthy s = (case s of None \<Rightarrow> False | Some v \<Rightarrow> v \<noteq> [])"

section \<open>Array primitives\<close>

text \<open>\<open>Array.prototype.findIndex\<close>; the result \<open>-1\<close> is \<open>None\<close>.\<close>

fun findIndex :: "('a \<Rightarrow> bool) \<Rightarrow> 'a list \<Rightarrow> nat option" where
  "findIndex P [] = None"
| "findIndex P (x # xs) = (if P x then Some 0 else map_option Suc (findIndex P xs))"

text \<open>\<open>todos.splice(index, 1)\<close>.\<close>

definition splice1 :: "nat \<Rightarrow> 'a list \<Rightarrow> 'a list" where
  "splice1 index xs = take index xs @ drop (Suc index) xs"

text \<open>
  \<open>Array.prototype.find\<close> returns the object itself, and the source then writes to its
  properties: the first element that satisfies the predicate changes in place.
\<close>

fun mutateFound :: "('a \<Rightarrow> bool) \<Rightarrow> ('a \<Rightarrow> 'a) \<Rightarrow> 'a list \<Rightarrow> 'a list" where
  "mutateFound P f [] = []"
| "mutateFound P f (x # xs) = (if P x then f x # xs else x # mutateFound P f xs)"

section \<open>TodoService.ts\<close>

definition createTodo :: "string \<Rightarrow> date \<Rightarrow> date \<Rightarrow> string \<Rightarrow> todo_options \<Rightarrow> TodoItem" where
  "createTodo uuid created updated ttl options =
     \<lparr> item_id = uuid,
       title = ttl,
       description = opt_description options,
       dueDate = opt_dueDate options,
       priority = opt_priority options,
       completed = False,
       categories = opt_categories options,
       tags = opt_tags options,
       dependencies = Some [],
       createdAt = created,
       updatedAt = updated \<rparr>"


definition findTodoById :: "TodoItem list \<Rightarrow> string \<Rightarrow> TodoItem option" where
  "findTodoById todos todoId = find (\<lambda>todo. item_id todo = todoId) todos"

definition findTodoByShortId :: "TodoItem list \<Rightarrow> string \<Rightarrow> TodoItem option" where
  "findTodoByShortId todos sid =
     (if sid = [] \<or> length sid < 8 then None
      else find (\<lambda>todo. startsWith (item_id todo) (toLowerCase sid)) todos)"

definition resolveTodoReference ::
  "TodoItem list \<Rightarrow> reference \<Rightarrow> resolve_error + TodoItem option" where
  "resolveTodoReference todos ref =
     (let selected =
        (if truthy (shortId ref) then
           (case findTodoByShortId todos (the (shortId ref)) of
              None \<Rightarrow> Inl (NoTodoWithShortId (the (shortId ref)))
            | Some todo \<Rightarrow> Inr (Some todo))
         else
           (case todoNumber ref of
              Some n \<Rightarrow>
                (let todoIndex = minusOne n in
                 if lessThanZero todoIndex \<or> atLeastLength todoIndex (length todos)
                 then Inl (InvalidTodoNumber n)
                 else Inr (elementAt todos todoIndex))
            | None \<Rightarrow> Inl NoIdentifier))
      in case selected of
           Inl e \<Rightarrow> Inl e
         | Inr None \<Rightarrow> Inr None
         | Inr (Some todo) \<Rightarrow>
             (if truthy (confirmTitle ref) \<and>
                 \<not> includesStr (toLowerCase (title todo)) (toLowerCase (the (confirmTitle ref)))
              then Inl (TitleMismatch (the (confirmTitle ref)) (title todo))
              else Inr (Some todo)))"

definition completeTodo :: "TodoItem list \<Rightarrow> string \<Rightarrow> date \<Rightarrow> TodoItem list \<times> bool" where
  "completeTodo todos todoId now =
     (case findTodoById todos todoId of
        Some todo \<Rightarrow>
          (mutateFound (\<lambda>todo. item_id todo = todoId)
             (\<lambda>todo. todo\<lparr>completed := True, updatedAt := now\<rparr>) todos, True)
      | None \<Rightarrow> (todos, False))"

definition uncompleteTodo :: "TodoItem list \<Rightarrow> string \<Rightarrow> date \<Rightarrow> TodoItem list \<times> bool" where
  "uncompleteTodo todos todoId now =
     (case findTodoById todos todoId of
        Some todo \<Rightarrow>
          (mutateFound (\<lambda>todo. item_id todo = todoId)
             (\<lambda>todo. todo\<lparr>completed := False, updatedAt := now\<rparr>) todos, True)
      | None \<Rightarrow> (todos, False))"


text \<open>
  \<open>Object.assign(todo, updates, { updatedAt: new Date() })\<close>: every property present in
  \<open>updates\<close> overwrites the todo's, then \<open>updatedAt\<close> is overwritten with the clock.
\<close>

definition assign :: "TodoItem \<Rightarrow> todo_updates \<Rightarrow> date \<Rightarrow> TodoItem" where
  "assign todo updates now =
     \<lparr> item_id = (case upd_id updates of Some v \<Rightarrow> v | None \<Rightarrow> item_id todo),
       title = (case upd_title updates of Some v \<Rightarrow> v | None \<Rightarrow> title todo),
       description = (case upd_description updates of Some v \<Rightarrow> v | None \<Rightarrow> description todo),
       dueDate = (case upd_dueDate updates of Some v \<Rightarrow> v | None \<Rightarrow> dueDate todo),
       priority = (case upd_priority updates of Some v \<Rightarrow> v | None \<Rightarrow> priority todo),
       completed = (case upd_completed updates of Some v \<Rightarrow> v | None \<Rightarrow> completed todo),
       categories = (case upd_categories updates of Some v \<Rightarrow> v | None \<Rightarrow> categories todo),
       tags = (case upd_tags updates of Some v \<Rightarrow> v | None \<Rightarrow> tags todo),
       dependencies =
         (case upd_dependencies updates of Some v \<Rightarrow> v | None \<Rightarrow> dependencies todo),
       createdAt = (case upd_createdAt updates of Some v \<Rightarrow> v | None \<Rightarrow> createdAt todo),
       updatedAt = now \<rparr>"

definition updateTodo ::
  "TodoItem list \<Rightarrow> string \<Rightarrow> todo_updates \<Rightarrow> date \<Rightarrow> TodoItem list \<times> bool" where
  "updateTodo todos todoId updates now =
     (case findTodoById todos todoId of
        Some todo \<Rightarrow>
          (mutateFound (\<lambda>todo. item_id todo = todoId) (\<lambda>todo. assign todo updates now) todos,
           True)
      | None \<Rightarrow> (todos, False))"


section \<open>ListService.ts\<close>

text \<open>
  The name of a list. \<open>interface TodoList\<close> declares a string, but the name comes
  from the untyped intent (\<open>parsed.name\<close>), so at run time it is a string or a value of
  another type (\<open>NotString\<close>), on which \<open>toLowerCase\<close> is not a function.
\<close>

datatype name_value = Str string | NotString

text \<open>\<open>interface TodoList\<close>; its properties carry the prefix \<open>list_\<close>.\<close>

record TodoList =
  list_id :: string
  list_name :: name_value
  list_todos :: "TodoItem list"
  list_createdAt :: date
  list_updatedAt :: date

text \<open>
  The writes \<open>ListService\<close> sends to \<open>DatabaseService\<close>. The database is an external
  collaborator: a write either succeeds or throws, which the environment decides
  (\<open>persist\<close>).
\<close>

datatype db_write =
    DbCreateList name_value string
  | DbCreateTodo TodoItem string
  | DbUpdateTodo TodoItem
  | DbDeleteTodo string

datatype error = DbError | NoCurrentListSelected | TypeError

text \<open>
  What the handlers print. Each constructor is one message of the source, with the
  value it interpolates; \<open>Failed\<close> is the message of a handler's own \<open>catch\<close> block.
  \<open>Suggested n\<close> is the heading of a command sequence followed by the rendering of its
  first \<open>n\<close> commands.
\<close>

datatype console_line =
    NoCurrentList
  | MissingTitle
  | MissingListName
  | InvalidTodoNumberLine
  | NoTodosFound
  | BadPriority
  | BadDueDate
  | NoUpdates
  | ListExists name_value
  | ListNotFound name_value
  | Failed string
  | Added string
  | AddedMany nat
  | FailedMany nat
  | Completed string
  | Updated string
  | Created name_value
  | Switched name_value
  | Deleted string
  | Listing
  | Say string
  | NotUnderstood
  | InvalidSequenceFormat
  | Suggested nat
  | ConfirmPrompt
  | Executing
  | Step nat nat
  | StepFailed nat
  | Stopping
  | SequenceCompleted
  | SequenceCancelled
  | ChatFailed

text \<open>
  The environment of a run: the identifiers \<open>uuidv4()\<close> generates and the readings of
  the clock, both indexed by a counter kept in the state, the database's verdict on
  each write, and the two date constructors of the handlers
  (\<open>new Date(year, month, day)\<close> after \<open>split('-')\<close> and \<open>parseInt\<close> in
  \<open>handleAddTodo\<close>, \<open>new Date(string)\<close> in \<open>handleEditTodo\<close>), \<open>None\<close> where the
  date's time value is \<open>NaN\<close>.
\<close>

record env =
  uuid :: "nat \<Rightarrow> string"
  clock :: "nat \<Rightarrow> date"
  persist :: "db_write \<Rightarrow> bool"
  parseLocalDate :: "string \<Rightarrow> date option"
  parseDate :: "string \<Rightarrow> date option"

text \<open>
  The state the handlers work on: the fields of \<open>ListService\<close>, the counter of the
  environment and the console. (\<open>lists\<close> is called \<open>todoLists\<close>.)
\<close>

record app =
  todoLists :: "TodoList list"
  currentListId :: "string option"
  tick :: nat
  console :: "console_line list"

definition say :: "app \<Rightarrow> console_line \<Rightarrow> app" where
  "say st line = st\<lparr>console := console st @ [line]\<rparr>"

definition getCurrentList :: "app \<Rightarrow> TodoList option" where
  "getCurrentList st =
     (if \<not> truthy (currentListId st) then None
      else find (\<lambda>l. list_id l = the (currentListId st)) (todoLists st))"

text \<open>
  The handlers write to \<open>currentList.todos\<close>, the array of the list object that
  \<open>getCurrentList\<close> found.
\<close>

definition withCurrentTodos :: "(TodoItem list \<Rightarrow> TodoItem list) \<Rightarrow> app \<Rightarrow> app" where
  "withCurrentTodos f st =
     st\<lparr>todoLists := mutateFound (\<lambda>l. list_id l = the (currentListId st))
                    (\<lambda>l. l\<lparr>list_todos := f (list_todos l)\<rparr>) (todoLists st)\<rparr>"

text \<open>
  \<open>lists.find(l => l.name.toLowerCase() === name.toLowerCase())\<close>: the callback throws
  a \<open>TypeError\<close> at the first list it is called on when that list's name or the name
  looked for is no string.
\<close>

fun findByName :: "name_value \<Rightarrow> TodoList list \<Rightarrow> error + TodoList option" where
  "findByName nm [] = Inr None"
| "findByName nm (l # ls) =
     (case list_name l of
        NotString \<Rightarrow> Inl TypeError
      | Str a \<Rightarrow>
          (case nm of
             NotString \<Rightarrow> Inl TypeError
           | Str b \<Rightarrow> if toLowerCase a = toLowerCase b then Inr (Some l) else findByName nm ls))"

definition findListByName :: "app \<Rightarrow> name_value \<Rightarrow> error + TodoList option" where
  "findListByName st nm = findByName nm (todoLists st)"

definition setCurrentListByName :: "name_value \<Rightarrow> app \<Rightarrow> error + app \<times> bool" where
  "setCurrentListByName nm st =
     (case findByName nm (todoLists st) of
        Inl err \<Rightarrow> Inl err
      | Inr (Some l) \<Rightarrow> Inr (st\<lparr>currentListId := Some (list_id l)\<rparr>, True)
      | Inr None \<Rightarrow> Inr (st, False))"

definition createList :: "env \<Rightarrow> name_value \<Rightarrow> app \<Rightarrow> error + app \<times> TodoList" where
  "createList e nm st =
     (let newList = \<lparr> list_id = uuid e (tick st), list_name = nm, list_todos = [],
                      list_createdAt = clock e (tick st),
                      list_updatedAt = clock e (Suc (tick st)) \<rparr>
      in if \<not> persist e (DbCreateList nm (list_id newList)) then Inl DbError
         else
           (let st1 = st\<lparr>todoLists := todoLists st @ [newList], tick := Suc (Suc (tick st))\<rparr>
            in Inr (if currentListId st1 = None
                    then st1\<lparr>currentListId := Some (list_id newList)\<rparr> else st1, newList)))"

definition addTodoToCurrentList :: "env \<Rightarrow> TodoItem \<Rightarrow> app \<Rightarrow> error + app" where
  "addTodoToCurrentList e todo st =
     (case getCurrentList st of
        None \<Rightarrow> Inl NoCurrentListSelected
      | Some currentList \<Rightarrow>
          if \<not> persist e (DbCreateTodo todo (list_id currentList)) then Inl DbError
          else Inr (withCurrentTodos (\<lambda>ts. ts @ [todo]) st))"

definition updateTodoInCurrentList :: "env \<Rightarrow> TodoItem \<Rightarrow> app \<Rightarrow> error + app" where
  "updateTodoInCurrentList e todo st =
     (if \<not> persist e (DbUpdateTodo todo) then Inl DbError else Inr st)"

definition deleteTodoFromCurrentList :: "env \<Rightarrow> string \<Rightarrow> app \<Rightarrow> error + app" where
  "deleteTodoFromCurrentList e todoId st =
     (case getCurrentList st of
        None \<Rightarrow> Inl NoCurrentListSelected
      | Some currentList \<Rightarrow>
          if \<not> persist e (DbDeleteTodo todoId) then Inl DbError
          else Inr (withCurrentTodos
                      (\<lambda>ts. case findIndex (\<lambda>t. item_id t = todoId) ts of
                               Some index \<Rightarrow> splice1 index ts
                             | None \<Rightarrow> ts) st))"


section \<open>index.ts: the handlers of parsed commands\<close>

text \<open>
  The structured intent is \<open>parsed: any\<close> in the source: the collaborator's reply,
  parsed from JSON. The properties carry the prefix \<open>cmd_\<close>; a property that is
  missing or \<open>null\<close> is \<open>None\<close>. Where a value of another type than the handlers
  expect makes a handler throw outside its own \<open>try\<close>, the model has that value:
  \<^item> \<open>name\<close> is a string or a truthy value that is no string (\<open>NotString\<close>), on which
    the lookup of a list by name throws;
  \<^item> \<open>categories\<close> is an array of strings, or a value that is no array: one that has
    a positive \<open>length\<close> and no \<open>join\<close>, as a non-empty string (\<open>LengthNoJoin\<close>), on
    which the rendering of an \<open>add_todo\<close> command throws, or any other (\<open>NoArray\<close>,
    also for a missing property), which every handler ignores;
  \<^item> \<open>todoNumber\<close> and \<open>index\<close> are numbers, fractions and \<open>NaN\<close> included;
  \<^item> an entry of a \<open>commands\<close> array may be \<open>null\<close> (\<open>None\<close>), on which the
    rendering throws.
  The other properties are typed as the handlers read them: a truthy value of another
  type there is ignored, stored as it is, or ends in the handler's own \<open>catch\<close>; it
  makes no handler throw. By the response schema the commands of a sequence carry no
  \<open>commands\<close> array of their own. \<open>cmd_action\<close> and \<open>cmd_message\<close> are the texts
  the template literals \<open>${response.action}\<close> and \<open>${parsed.message}\<close> print; a
  missing action is the text \<open>undefined\<close>, which names no action.
\<close>

datatype categories_value = NoArray | StringArray "string list" | LengthNoJoin

record todo_data =
  data_title :: "string option"
  data_description :: "string option"
  data_priority :: "string option"
  data_dueDate :: "string option"
  data_categories :: categories_value

record command =
  cmd_action :: string
  cmd_title :: "string option"
  cmd_description :: "string option"
  cmd_priority :: "string option"
  cmd_dueDate :: "string option"
  cmd_categories :: categories_value
  cmd_todoNumber :: "number option"
  cmd_index :: "number option"
  cmd_name :: "name_value option"
  cmd_todos :: "todo_data list option"
  cmd_message :: string

text \<open>A response of the collaborator: a command that may carry a \<open>commands\<close> array.\<close>

record parsed =
  own_fields :: command
  commands :: "command option list option"

text \<open>
  An awaited call either returns or throws; both leave a state behind. The \<open>catch\<close> of
  a caller sees \<open>Thrown\<close>.
\<close>

datatype 's completion = Returned 's | Thrown 's

text \<open>\<open>!parsed.name\<close> is false: a non-empty string, or a truthy value of another type.\<close>

definition truthyName :: "name_value option \<Rightarrow> bool" where
  "truthyName nm = (case nm of None \<Rightarrow> False | Some (Str s) \<Rightarrow> s \<noteq> [] | Some NotString \<Rightarrow> True)"

text \<open>\<open>parsed.categories && Array.isArray(parsed.categories)\<close>, with the array.\<close>

definition categoriesArray :: "categories_value \<Rightarrow> string list option" where
  "categoriesArray c = (case c of StringArray cs \<Rightarrow> Some cs | other \<Rightarrow> None)"

text \<open>\<open>['high', 'medium', 'low'].includes(p)\<close>, with the value the option then takes.\<close>

definition parsePriority :: "string \<Rightarrow> priority option" where
  "parsePriority p =
     (if p = ''high'' then Some High
      else if p = ''medium'' then Some Medium
      else if p = ''low'' then Some Low
      else None)"

text \<open>
  \<open>(parsed.todoNumber || parsed.index) - 1\<close>, rejected (\<open>None\<close>) when it is \<open>NaN\<close>,
  negative or not below the length of the list. A missing operand makes the difference
  \<open>NaN\<close>.
\<close>

definition todoIndexOf :: "command \<Rightarrow> nat \<Rightarrow> number option" where
  "todoIndexOf p len =
     (let todoIndex =
        (case (case cmd_todoNumber p of
                 Some n \<Rightarrow> if falsyNumber n then cmd_index p else Some n
               | None \<Rightarrow> cmd_index p) of
           None \<Rightarrow> NaN
         | Some n \<Rightarrow> minusOne n)
      in if isNaN todoIndex \<or> lessThanZero todoIndex \<or> atLeastLength todoIndex len then None
         else Some todoIndex)"

definition handleAddTodo :: "env \<Rightarrow> command \<Rightarrow> app \<Rightarrow> app" where
  "handleAddTodo e p st =
     (case getCurrentList st of
        None \<Rightarrow> say st NoCurrentList
      | Some currentList \<Rightarrow>
          if \<not> truthy (cmd_title p) then say st MissingTitle
          else
            (let options =
               \<lparr> opt_description = (if truthy (cmd_description p) then cmd_description p else None),
                 opt_dueDate =
                   (if truthy (cmd_dueDate p) then parseLocalDate e (the (cmd_dueDate p)) else None),
                 opt_priority =
                   (if truthy (cmd_priority p) then parsePriority (the (cmd_priority p)) else None),
                 opt_categories = categoriesArray (cmd_categories p),
                 opt_tags = None \<rparr>;
               newTodo = createTodo (uuid e (tick st)) (clock e (tick st)) (clock e (Suc (tick st)))
                           (the (cmd_title p)) options;
               st1 = st\<lparr>tick := Suc (Suc (tick st))\<rparr>
             in case addTodoToCurrentList e newTodo st1 of
                  Inl err \<Rightarrow> say st1 (Failed ''add todo'')
                | Inr st2 \<Rightarrow> say st2 (Added (title newTodo))))"

text \<open>
  The loop body of \<open>handleAddMultipleTodos\<close>: the state, \<open>successCount\<close> and
  \<open>failureCount\<close>.
\<close>

definition addOneOfMany :: "env \<Rightarrow> app \<times> nat \<times> nat \<Rightarrow> todo_data \<Rightarrow> app \<times> nat \<times> nat" where
  "addOneOfMany e acc todoData =
     (case acc of (st, successCount, failureCount) \<Rightarrow>
        if \<not> truthy (data_title todoData) then (st, successCount, Suc failureCount)
        else
          (let options =
             \<lparr> opt_description =
                 (if truthy (data_description todoData) then data_description todoData else None),
               opt_dueDate =
                 (if truthy (data_dueDate todoData)
                  then parseLocalDate e (the (data_dueDate todoData)) else None),
               opt_priority =
                 (if truthy (data_priority todoData)
                  then parsePriority (the (data_priority todoData)) else None),
               opt_categories = categoriesArray (data_categories todoData),
               opt_tags = None \<rparr>;
             newTodo =
               createTodo (uuid e (tick st)) (clock e (tick st)) (clock e (Suc (tick st)))
                 (the (data_title todoData)) options;
             st1 = st\<lparr>tick := Suc (Suc (tick st))\<rparr>
           in case addTodoToCurrentList e newTodo st1 of
                Inl err \<Rightarrow> (say st1 (Failed ''add''), successCount, Suc failureCount)
              | Inr st2 \<Rightarrow> (st2, Suc successCount, failureCount)))"

definition handleAddMultipleTodos :: "env \<Rightarrow> command \<Rightarrow> app \<Rightarrow> app" where
  "handleAddMultipleTodos e p st =
     (case getCurrentList st of
        None \<Rightarrow> say st NoCurrentList
      | Some currentList \<Rightarrow>
          (case cmd_todos p of
             None \<Rightarrow> say st NoTodosFound
           | Some items \<Rightarrow>
               if items = [] then say st NoTodosFound
               else
                 (case foldl (addOneOfMany e) (st, 0, 0) items of
                    (st1, successCount, failureCount) \<Rightarrow>
                      (let st2 = (if successCount > 0 then say st1 (AddedMany successCount) else st1)
                       in if failureCount > 0 then say st2 (FailedMany failureCount) else st2))))"

text \<open>\<open>handleListTodos\<close> only prints; the filtered listing itself is one line here.\<close>

definition handleListTodos :: "env \<Rightarrow> command \<Rightarrow> app \<Rightarrow> app" where
  "handleListTodos e p st =
     (case getCurrentList st of
        None \<Rightarrow> say st NoCurrentList
      | Some currentList \<Rightarrow> say st Listing)"

text \<open>
  In the three handlers below \<open>currentList.todos[todoIndex]\<close> is \<open>undefined\<close> when the
  index is a fraction; reading its \<open>id\<close> then throws inside the handler's \<open>try\<close>, and
  the handler's \<open>catch\<close> prints the failure.
\<close>

definition handleCompleteTodo :: "env \<Rightarrow> command \<Rightarrow> app \<Rightarrow> app" where
  "handleCompleteTodo e p st =
     (case getCurrentList st of
        None \<Rightarrow> say st NoCurrentList
      | Some currentList \<Rightarrow>
          (case todoIndexOf p (length (list_todos currentList)) of
             None \<Rightarrow> say st InvalidTodoNumberLine
           | Some todoIndex \<Rightarrow>
               (case arrayIndex todoIndex of
                  None \<Rightarrow> say st (Failed ''complete todo'')
                | Some i \<Rightarrow>
                    (let todo = list_todos currentList ! i;
                       after =
                         fst (completeTodo (list_todos currentList) (item_id todo) (clock e (tick st)));
                       st1 = withCurrentTodos (\<lambda>ts. after) (st\<lparr>tick := Suc (tick st)\<rparr>)
                     in case updateTodoInCurrentList e (after ! i) st1 of
                          Inl err \<Rightarrow> say st1 (Failed ''complete todo'')
                        | Inr st2 \<Rightarrow> say st2 (Completed (title (after ! i)))))))"

definition handleEditTodo :: "env \<Rightarrow> command \<Rightarrow> app \<Rightarrow> app" where
  "handleEditTodo e p st =
     (case getCurrentList st of
        None \<Rightarrow> say st NoCurrentList
      | Some currentList \<Rightarrow>
          (case todoIndexOf p (length (list_todos currentList)) of
             None \<Rightarrow> say st InvalidTodoNumberLine
           | Some todoIndex \<Rightarrow>
               if truthy (cmd_priority p) \<and> parsePriority (the (cmd_priority p)) = None
               then say st BadPriority
               else if truthy (cmd_dueDate p) \<and> parseDate e (the (cmd_dueDate p)) = None
               then say st BadDueDate
               else if \<not> truthy (cmd_title p) \<and> \<not> truthy (cmd_priority p) \<and>
                       \<not> truthy (cmd_dueDate p) \<and> categoriesArray (cmd_categories p) = None
               then say st NoUpdates
               else
                 (case arrayIndex todoIndex of
                    None \<Rightarrow> say st (Failed ''edit todo'')
                  | Some i \<Rightarrow>
                      (let todo = list_todos currentList ! i;
                         updates =
                           \<lparr> upd_id = None,
                             upd_title = (if truthy (cmd_title p) then cmd_title p else None),
                             upd_description = None,
                             upd_dueDate =
                               (if truthy (cmd_dueDate p)
                                then Some (parseDate e (the (cmd_dueDate p))) else None),
                             upd_priority =
                               (if truthy (cmd_priority p)
                                then Some (parsePriority (the (cmd_priority p))) else None),
                             upd_completed = None,
                             upd_categories =
                               (case categoriesArray (cmd_categories p) of
                                  Some cs \<Rightarrow> Some (Some cs) | None \<Rightarrow> None),
                             upd_tags = None,
                             upd_dependencies = None,
                             upd_createdAt = None,
                             upd_updatedAt = None \<rparr>;
                         after =
                           fst (updateTodo (list_todos currentList) (item_id todo) updates
                                  (clock e (tick st)));
                         st1 = withCurrentTodos (\<lambda>ts. after) (st\<lparr>tick := Suc (tick st)\<rparr>)
                       in case updateTodoInCurrentList e (after ! i) st1 of
                            Inl err \<Rightarrow> say st1 (Failed ''edit todo'')
                          | Inr st2 \<Rightarrow> say st2 (Updated (title (after ! i)))))))"

text \<open>
  \<open>handleCreateList\<close> and \<open>handleSwitchList\<close> look the list up by name outside any
  \<open>try\<close>: a \<open>TypeError\<close> of the lookup leaves the handler.
\<close>

definition handleCreateList :: "env \<Rightarrow> command \<Rightarrow> app \<Rightarrow> app completion" where
  "handleCreateList e p st =
     (if \<not> truthyName (cmd_name p) then Returned (say st MissingListName)
      else
        (case findListByName st (the (cmd_name p)) of
           Inl err \<Rightarrow> Thrown st
         | Inr (Some existing) \<Rightarrow> Returned (say st (ListExists (the (cmd_name p))))
         | Inr None \<Rightarrow>
             (case createList e (the (cmd_name p)) st of
                Inl err \<Rightarrow> Returned (say st (Failed ''create list''))
              | Inr (st1, newList) \<Rightarrow> Returned (say st1 (Created (list_name newList))))))"

definition handleSwitchList :: "env \<Rightarrow> command \<Rightarrow> app \<Rightarrow> app completion" where
  "handleSwitchList e p st =
     (if \<not> truthyName (cmd_name p) then Returned (say st MissingListName)
      else
        (case setCurrentListByName (the (cmd_name p)) st of
           Inl err \<Rightarrow> Thrown st
         | Inr (st1, True) \<Rightarrow> Returned (say st1 (Switched (the (cmd_name p))))
         | Inr (st1, False) \<Rightarrow> Returned (say st1 (ListNotFound (the (cmd_name p))))))"

definition handleDeleteTodo :: "env \<Rightarrow> command \<Rightarrow> app \<Rightarrow> app" where
  "handleDeleteTodo e p st =
     (case getCurrentList st of
        None \<Rightarrow> say st NoCurrentList
      | Some currentList \<Rightarrow>
          (case todoIndexOf p (length (list_todos currentList)) of
             None \<Rightarrow> say st InvalidTodoNumberLine
           | Some todoIndex \<Rightarrow>
               (case arrayIndex todoIndex of
                  None \<Rightarrow> say st (Failed ''delete todo'')
                | Some i \<Rightarrow>
                    (let todo = list_todos currentList ! i
                     in case deleteTodoFromCurrentList e (item_id todo) st of
                          Inl err \<Rightarrow> say st (Failed ''delete todo'')
                        | Inr st1 \<Rightarrow> say st1 (Deleted (title todo))))))"

text \<open>
  \<open>handleParsedCommand\<close> on a command of a sequence. The handlers of todos return:
  each call of theirs that can throw sits inside the handler's own \<open>try\<close>, whose
  \<open>catch\<close> prints and returns. A command of a sequence has no \<open>commands\<close> array, so the
  action \<open>command_sequence\<close> ends in \<open>handleCommandSequence\<close>'s format check.
\<close>

definition handleParsedCommand :: "env \<Rightarrow> command \<Rightarrow> app \<Rightarrow> app completion" where
  "handleParsedCommand e p st =
     (if cmd_action p = ''add_todo'' then Returned (handleAddTodo e p st)
      else if cmd_action p = ''add_multiple_todos'' then Returned (handleAddMultipleTodos e p st)
      else if cmd_action p = ''list_todos'' then Returned (handleListTodos e p st)
      else if cmd_action p = ''complete_todo'' then Returned (handleCompleteTodo e p st)
      else if cmd_action p = ''edit_todo'' then Returned (handleEditTodo e p st)
      else if cmd_action p = ''create_list'' then handleCreateList e p st
      else if cmd_action p = ''switch_list'' then handleSwitchList e p st
      else if cmd_action p = ''delete_todo'' then Returned (handleDeleteTodo e p st)
      else if cmd_action p = ''command_sequence'' then Returned (say st InvalidSequenceFormat)
      else if cmd_action p = ''conversational'' then Returned (say st (Say (cmd_message p)))
      else Returned (say st NotUnderstood))"

section \<open>index.ts: command sequences\<close>

text \<open>\<open>answer.trim()\<close>: white space and line terminators go from both ends.\<close>

definition isSpace :: "char \<Rightarrow> bool" where
  "isSpace c = ((of_char c :: nat) \<in> {9, 10, 11, 12, 13, 32})"

definition trim :: "string \<Rightarrow> string" where
  "trim s = rev (dropWhile isSpace (rev (dropWhile isSpace s)))"

text \<open>
  \<open>formatCommandForDisplay(cmd)\<close> returns: \<open>cmd\<close> is not \<open>null\<close> (its \<open>action\<close> can
  be read), and when it is an \<open>add_todo\<close> command its \<open>categories\<close> can be joined.
\<close>

definition renders :: "command option \<Rightarrow> bool" where
  "renders c =
     (case c of
        None \<Rightarrow> False
      | Some cmd \<Rightarrow> \<not> (cmd_action cmd = ''add_todo'' \<and> cmd_categories cmd = LengthNoJoin))"

text \<open>
  The \<open>for\<close> loop of the confirmation handler, from step \<open>i\<close> (0-based) of \<open>n\<close>: print
  the step, await the command, stop in the \<open>catch\<close> when it throws.
\<close>

fun executeCommands :: "env \<Rightarrow> nat \<Rightarrow> nat \<Rightarrow> command list \<Rightarrow> app \<Rightarrow> app" where
  "executeCommands e i n [] st = say st SequenceCompleted"
| "executeCommands e i n (cmd # rest) st =
     (case handleParsedCommand e cmd (say st (Step (i + 1) n)) of
        Thrown st1 \<Rightarrow> say (say st1 (StepFailed (i + 1))) Stopping
      | Returned st1 \<Rightarrow> executeCommands e (i + 1) n rest st1)"

text \<open>
  \<open>handleCommandSequence\<close>, with the line the user answers the confirmation with. The
  sequence is rendered by \<open>forEach\<close> before the promise is made: the first command
  that does not render makes the call throw after the commands before it are
  printed. Past the rendering every entry is a command, and the promise is resolved on
  every path.
\<close>

definition handleCommandSequence ::
  "env \<Rightarrow> command option list option \<Rightarrow> string \<Rightarrow> app \<Rightarrow> app completion" where
  "handleCommandSequence e cmds answer st =
     (case cmds of
        None \<Rightarrow> Returned (say st InvalidSequenceFormat)
      | Some cs \<Rightarrow>
          (let shown = length (takeWhile renders cs);
             st1 = say st (Suggested shown)
           in if shown < length cs then Thrown st1
              else
                (let st2 = say st1 ConfirmPrompt;
                   trimmedAnswer = toLowerCase (trim answer)
                 in if trimmedAnswer = [] then Returned st2
                    else if trimmedAnswer = ''y'' \<or> trimmedAnswer = ''yes''
                    then Returned (executeCommands e 0 (length cs)
                                     (List.map_filter (\<lambda>c. c) cs)
                                     (say st2 Executing))
                    else Returned (say st2 SequenceCancelled))))"

text \<open>\<open>handleParsedCommand\<close> on a response of the collaborator.\<close>

definition handleParsedResponse :: "env \<Rightarrow> string \<Rightarrow> parsed \<Rightarrow> app \<Rightarrow> app completion" where
  "handleParsedResponse e answer r st =
     (if cmd_action (own_fields r) = ''command_sequence''
      then handleCommandSequence e (commands r) answer st
      else handleParsedCommand e (own_fields r) st)"

section \<open>index.ts: the conversation history\<close>

text \<open>
  The state of chat mode: the conversation history, a variable of
  \<open>startInteractiveMode\<close> that only \<open>handleChatMessage\<close> reads and writes, beside the
  state the handlers work on.
\<close>

record chat =
  session :: app
  conversationHistory :: "string list"

definition maxConversationHistory :: nat where
  "maxConversationHistory = 10"

text \<open>\<open>while (conversationHistory.length > maxConversationHistory) conversationHistory.shift()\<close>\<close>

function trimHistory :: "string list \<Rightarrow> string list" where
  "trimHistory h = (if length h > maxConversationHistory then trimHistory (tl h) else h)"
  by pat_completeness auto
termination
  by (relation "measure length") (auto simp: maxConversationHistory_def)

declare trimHistory.simps [simp del]

text \<open>The two \<open>push\<close> calls: the line recorded for the user and for the assistant.\<close>

definition recordUser :: "string \<Rightarrow> chat \<Rightarrow> chat" where
  "recordUser message c =
     c\<lparr>conversationHistory := conversationHistory c @ [''User: '' @ message]\<rparr>"

definition assistantTurn :: "parsed \<Rightarrow> string" where
  "assistantTurn response =
     (if cmd_action (own_fields response) = ''conversational''
      then ''Assistant: '' @ cmd_message (own_fields response)
      else ''Assistant: Executed '' @ cmd_action (own_fields response) @ '' command'')"

definition recordAssistant :: "parsed \<Rightarrow> chat \<Rightarrow> chat" where
  "recordAssistant response c =
     c\<lparr>conversationHistory := conversationHistory c @ [assistantTurn response]\<rparr>"

definition trimChat :: "chat \<Rightarrow> chat" where
  "trimChat c = c\<lparr>conversationHistory := trimHistory (conversationHistory c)\<rparr>"

text \<open>
  \<open>handleChatMessage\<close>, with the outcome of \<open>chatWithAI\<close> (\<open>None\<close> when it throws) and
  with the awaited \<open>handleParsedCommand\<close> as the argument \<open>handler\<close>. The handler works
  on the session and cannot reach the history. When it throws, the \<open>catch\<close> of
  \<open>handleChatMessage\<close> prints and the function ends there. The progress and debug
  lines that \<open>handleChatMessage\<close> prints before it records the user's turn are not
  kept in the console.
\<close>

definition handleChatMessageWith ::
  "(parsed \<Rightarrow> app \<Rightarrow> app completion) \<Rightarrow> string \<Rightarrow> parsed option \<Rightarrow> chat \<Rightarrow> chat" where
  "handleChatMessageWith handler message reply c =
     (case reply of
        None \<Rightarrow> c\<lparr>session := say (session c) ChatFailed\<rparr>
      | Some response \<Rightarrow>
          (let c1 = recordUser message c
           in if cmd_action (own_fields response) = ''conversational'' then
                trimChat (recordAssistant response
                  (c1\<lparr>session := say (session c1) (Say (cmd_message (own_fields response)))\<rparr>))
              else
                (case handler response (session c1) of
                   Thrown st \<Rightarrow> c1\<lparr>session := say st ChatFailed\<rparr>
                 | Returned st \<Rightarrow> trimChat (recordAssistant response (c1\<lparr>session := st\<rparr>)))))"

text \<open>
  \<open>handleChatMessage\<close> of the source: the handler is \<open>handleParsedCommand\<close>, with the
  line the user would answer a confirmation with.
\<close>

definition handleChatMessage :: "env \<Rightarrow> string \<Rightarrow> parsed option \<Rightarrow> string \<Rightarrow> chat \<Rightarrow> chat" where
  "handleChatMessage e message reply answer c =
     handleChatMessageWith (handleParsedResponse e answer) message reply c"


section \<open>Vocabulary of the properties\<close>

text \<open>
  The scan of the resolver's first step: the todos whose \<open>id\<close> starts with the
  lower-cased short id, in list order.
\<close>

definition shortIdMatches :: "TodoItem list \<Rightarrow> string \<Rightarrow> TodoItem list" where
  "shortIdMatches todos sid = filter (\<lambda>todo. startsWith (item_id todo) (toLowerCase sid)) todos"

text \<open>
  The safety check at the end of \<open>resolveTodoReference\<close> (lines 83 to 92), applied to
  a candidate: the title-mismatch error when a \<open>confirmTitle\<close> is given that the
  candidate's title does not contain, the candidate otherwise.
\<close>

definition verifyTitle :: "reference \<Rightarrow> TodoItem \<Rightarrow> resolve_error + TodoItem option" where
  "verifyTitle ref todo =
     (if truthy (confirmTitle ref) \<and>
         \<not> includesStr (toLowerCase (title todo)) (toLowerCase (the (confirmTitle ref)))
      then Inl (TitleMismatch (the (confirmTitle ref)) (title todo))
      else Inr (Some todo))"

text \<open>The reference \<open>{shortId: sid}\<close>.\<close>

definition shortIdRef :: "string \<Rightarrow> reference" where
  "shortIdRef sid = \<lparr> shortId = Some sid, todoNumber = None, confirmTitle = None \<rparr>"




text \<open>
  The awaited handler throws in \<open>handleChatMessage\<close>: there is a reply, it is not
  conversational, and the handler throws on it.
\<close>

definition handlerThrows ::
  "(parsed \<Rightarrow> app \<Rightarrow> app completion) \<Rightarrow> parsed option \<Rightarrow> chat \<Rightarrow> bool" where
  "handlerThrows handler reply c =
     (case reply of
        None \<Rightarrow> False
      | Some response \<Rightarrow>
          cmd_action (own_fields response) \<noteq> ''conversational'' \<and>
          (case handler response (session c) of Thrown st \<Rightarrow> True | Returned st \<Rightarrow> False))"

subsection \<open>Concrete data\<close>

definition noOptions :: todo_options where
  "noOptions = \<lparr> opt_description = None, opt_dueDate = None, opt_priority = None,
                 opt_categories = None, opt_tags = None \<rparr>"

definition exTodo :: "string \<Rightarrow> string \<Rightarrow> TodoItem" where
  "exTodo newId ttl = createTodo newId 0 0 ttl noOptions"

definition stabilityTodos :: "TodoItem list" where
  "stabilityTodos =
     [exTodo ''11111111-aaaa-4aaa-8aaa-000000000001'' ''Item 1'',
      exTodo ''22222222-bbbb-4bbb-8bbb-000000000002'' ''Item 2'',
      exTodo ''33333333-cccc-4ccc-8ccc-000000000003'' ''Item 3'']"


definition collidingTodos :: "TodoItem list" where
  "collidingTodos =
     [exTodo ''1a2b3c4d-aaaa-4aaa-8aaa-000000000001'' ''Buy milk'',
      exTodo ''1a2b3c4d-bbbb-4bbb-8bbb-000000000002'' ''Walk dog'']"


definition idOnlyUpdate :: todo_updates where
  "idOnlyUpdate =
     \<lparr> upd_id = Some ''ffffffff-ffff-4fff-8fff-ffffffffffff'', upd_title = None,
       upd_description = None, upd_dueDate = None, upd_priority = None, upd_completed = None,
       upd_categories = None, upd_tags = None, upd_dependencies = None, upd_createdAt = None,
       upd_updatedAt = None \<rparr>"

definition titleOnlyUpdate :: todo_updates where
  "titleOnlyUpdate = idOnlyUpdate\<lparr>upd_id := None, upd_title := Some ''Buy oat milk''\<rparr>"

definition exEnv :: env where
  "exEnv = \<lparr> uuid = (\<lambda>n. ''todo-'' @ replicate n (CHR ''x'')), clock = int,
             persist = (\<lambda>w. True), parseLocalDate = (\<lambda>s. None), parseDate = (\<lambda>s. None) \<rparr>"

definition exApp :: app where
  "exApp =
     \<lparr> todoLists = [\<lparr> list_id = ''list-1'', list_name = Str ''Personal'', list_todos = [],
                      list_createdAt = 0, list_updatedAt = 0 \<rparr>],
       currentListId = Some ''list-1'', tick = 0, console = [] \<rparr>"

definition addCommand :: "string option \<Rightarrow> command" where
  "addCommand ttl =
     \<lparr> cmd_action = ''add_todo'', cmd_title = ttl, cmd_description = None, cmd_priority = None,
       cmd_dueDate = None, cmd_categories = NoArray, cmd_todoNumber = None, cmd_index = None,
       cmd_name = None, cmd_todos = None, cmd_message = ''undefined'' \<rparr>"

definition exBatch :: "command list" where
  "exBatch = [addCommand (Some ''Buy milk''), addCommand None, addCommand (Some ''Walk dog'')]"

definition conversationalReply :: "string \<Rightarrow> parsed" where
  "conversationalReply m =
     \<lparr> own_fields = (addCommand None)\<lparr>cmd_action := ''conversational'', cmd_message := m\<rparr>,
       commands = None \<rparr>"

text \<open>The reply \<open>{action: "add_todo", title: "Buy milk"}\<close>.\<close>

definition addReply :: parsed where
  "addReply = \<lparr> own_fields = addCommand (Some ''Buy milk''), commands = None \<rparr>"

text \<open>
  The reply \<open>{action: "switch_list", name: 5}\<close>: a name that is truthy and no string.
\<close>

definition numberNameReply :: parsed where
  "numberNameReply =
     \<lparr> own_fields = (addCommand None)\<lparr>cmd_action := ''switch_list'', cmd_name := Some NotString\<rparr>,
       commands = None \<rparr>"

text \<open>Chat mode after five exchanges: ten entries in the history.\<close>

definition tenTurns :: chat where
  "tenTurns =
     \<lparr> session = exApp,
       conversationHistory = concat (replicate 5 [''User: hi'', ''Assistant: hello'']) \<rparr>"


section \<open>Auxiliary facts\<close>

subsection \<open>Strings and arrays\<close>

lemma toLowerCase_Nil_iff: "toLowerCase s = [] \<longleftrightarrow> s = []"
  by (simp add: toLowerCase_def)

lemma find_hd_filter: "filter P xs \<noteq> [] \<Longrightarrow> find P xs = Some (hd (filter P xs))"
  by (induction xs) auto


lemma findIndex_None_iff: "findIndex P xs = None \<longleftrightarrow> (\<forall>x\<in>set xs. \<not> P x)"
  by (induction xs) auto

lemma find_None_findIndex: "find P xs = None \<longleftrightarrow> findIndex P xs = None"
  by (induction xs) auto



lemma mutateFound_map:
  "(\<And>x. P x \<Longrightarrow> g (f x) = g x) \<Longrightarrow> map g (mutateFound P f xs) = map g xs"
  by (induction xs) auto

lemma mutateFound_update:
  "findIndex P xs = Some i \<Longrightarrow>
     mutateFound P f xs = xs[i := f (xs ! i)] \<and> i < length xs \<and> P (xs ! i) \<and> (\<forall>j<i. \<not> P (xs ! j))"
proof (induction xs arbitrary: i)
  case Nil
  then show ?case by simp
next
  case (Cons x xs)
  show ?case
  proof (cases "P x")
    case True
    with Cons.prems show ?thesis by simp
  next
    case False
    with Cons.prems obtain k where k: "findIndex P xs = Some k" "i = Suc k" by auto
    from Cons.IH[OF k(1)] False k(2) show ?thesis
      by (auto simp: less_Suc_eq_0_disj)
  qed
qed

subsection \<open>Resolution by short id under additions and deletions\<close>







subsection \<open>Integers as array positions\<close>

lemma integer_index_range:
  "(lessThanZero (minusOne (Finite (of_int n))) \<or>
    atLeastLength (minusOne (Finite (of_int n))) len) = (n < 1 \<or> int len < n)"
proof -
  have "(of_int n - 1 :: rat) = of_int (n - 1)" by simp
  moreover have "(of_int (n - 1) < (0 :: rat)) = (n < 1)" by (simp only: of_int_less_0_iff) simp
  moreover have "((of_nat len :: rat) \<le> of_int (n - 1)) = (int len < n)"
  proof -
    have "((of_nat len :: rat) \<le> of_int (n - 1)) = ((of_int (int len) :: rat) \<le> of_int (n - 1))"
      by simp
    also have "\<dots> = (int len \<le> n - 1)" by (simp only: of_int_le_iff)
    also have "\<dots> = (int len < n)" by arith
    finally show ?thesis .
  qed
  ultimately show ?thesis
    by (simp only: lessThanZero_def atLeastLength_def minusOne_def number.case)
qed

lemma integer_index_element:
  "1 \<le> n \<Longrightarrow> n \<le> int (length xs) \<Longrightarrow>
   elementAt xs (minusOne (Finite (of_int n))) = Some (xs ! nat (n - 1))"
  by (auto simp: elementAt_def arrayIndex_def minusOne_def)

subsection \<open>Trimming the history\<close>

lemma trimHistory_drop: "trimHistory h = drop (length h - maxConversationHistory) h"
proof (induction h rule: trimHistory.induct)
  case (1 h)
  show ?case
  proof (cases "length h > maxConversationHistory")
    case True
    then obtain x xs where h: "h = x # xs" by (cases h) auto
    from True h have "length h - maxConversationHistory = Suc (length xs - maxConversationHistory)"
      by simp
    with 1 True h show ?thesis by (subst trimHistory.simps) simp
  next
    case False
    then show ?thesis by (subst trimHistory.simps) simp
  qed
qed


section \<open>Reference resolution\<close>

text \<open>
  Claim C1, as the code has it. When more than one todo's \<open>id\<close> starts with the
  lower-cased short id (of eight characters or more), \<open>resolveTodoReference\<close> reports
  no ambiguity: it selects the first such todo in list order, and returns it unless a
  \<open>confirmTitle\<close> is given that the todo's title does not contain (\<open>verifyTitle\<close>).
\<close>

theorem shortId_picks_first_match:
  assumes "shortId ref = Some sid" and "8 \<le> length sid"
    and "1 < length (shortIdMatches todos sid)"
  shows "resolveTodoReference todos ref = verifyTitle ref (hd (shortIdMatches todos sid))"
proof -
  from assms(3) have "shortIdMatches todos sid \<noteq> []" by auto
  then have "find (\<lambda>todo. startsWith (item_id todo) (toLowerCase sid)) todos =
             Some (hd (shortIdMatches todos sid))"
    unfolding shortIdMatches_def by (rule find_hd_filter)
  moreover from assms(2) have "sid \<noteq> []" by auto
  ultimately show ?thesis
    using assms(1,2)
    by (simp add: resolveTodoReference_def findTodoByShortId_def truthy_def verifyTitle_def)
qed

text \<open>
  Two todos share the prefix \<open>1a2b3c4d\<close>; the reference also names position 2 and
  confirms the title of the first todo.
\<close>

theorem shortId_picks_first_match_witness:
  "1 < length (shortIdMatches collidingTodos ''1A2B3C4D'') \<and>
   resolveTodoReference collidingTodos
     \<lparr> shortId = Some ''1A2B3C4D'', todoNumber = Some (Finite 2), confirmTitle = Some ''MILK'' \<rparr> =
   Inr (Some (exTodo ''1a2b3c4d-aaaa-4aaa-8aaa-000000000001'' ''Buy milk''))"
proof -
  have m: "shortIdMatches collidingTodos ''1A2B3C4D'' = collidingTodos"
    by code_simp
  have two: "1 < length (shortIdMatches collidingTodos ''1A2B3C4D'')"
    unfolding m by (simp add: collidingTodos_def)
  from shortId_picks_first_match[of
        "\<lparr> shortId = Some ''1A2B3C4D'', todoNumber = Some (Finite 2), confirmTitle = Some ''MILK'' \<rparr>"
        "''1A2B3C4D''" collidingTodos, OF _ _ two]
  have "resolveTodoReference collidingTodos
          \<lparr> shortId = Some ''1A2B3C4D'', todoNumber = Some (Finite 2),
            confirmTitle = Some ''MILK'' \<rparr> =
        verifyTitle
          \<lparr> shortId = Some ''1A2B3C4D'', todoNumber = Some (Finite 2),
            confirmTitle = Some ''MILK'' \<rparr>
          (hd collidingTodos)"
    unfolding m by simp
  also have "\<dots> = Inr (Some (exTodo ''1a2b3c4d-aaaa-4aaa-8aaa-000000000001'' ''Buy milk''))"
    by code_simp
  finally show ?thesis using two by simp
qed

text \<open>
  Claim C1 as stated fails: two todos' ids start with \<open>1a2b3c4d\<close>, and the reference
  \<open>{shortId: "1a2b3c4d"}\<close> resolves to the first of them instead of failing.
\<close>

theorem ambiguous_shortId_counterexample:
  "length (shortIdMatches collidingTodos ''1a2b3c4d'') = 2 \<and>
   resolveTodoReference collidingTodos (shortIdRef ''1a2b3c4d'') =
     Inr (Some (exTodo ''1a2b3c4d-aaaa-4aaa-8aaa-000000000001'' ''Buy milk''))"
  by code_simp




text \<open>
  Claim C4 (content-mismatch guard). When the reference carries a \<open>confirmTitle\<close> and
  the candidate that the short id or the position selects (what the reference resolves
  to without its \<open>confirmTitle\<close>) has a title that does not contain it, compared in
  lower case, resolution fails with the title-mismatch error and returns no todo.
\<close>

theorem confirmTitle_mismatch:
  assumes "confirmTitle ref = Some expected"
    and "resolveTodoReference todos (ref\<lparr>confirmTitle := None\<rparr>) = Inr (Some candidate)"
    and "\<not> includesStr (toLowerCase (title candidate)) (toLowerCase expected)"
  shows "resolveTodoReference todos ref = Inl (TitleMismatch expected (title candidate))"
proof -
  from assms(3) have "toLowerCase expected \<noteq> []" by (auto simp: includesStr_def)
  then have "expected \<noteq> []" by (simp add: toLowerCase_Nil_iff)
  with assms(1) have t: "truthy (confirmTitle ref)" by (simp add: truthy_def)
  from assms(2) t assms(1,3) show ?thesis
    by (auto simp: resolveTodoReference_def truthy_def Let_def
             split: if_splits option.splits sum.splits)
qed

theorem confirmTitle_mismatch_witness:
  "resolveTodoReference collidingTodos
     \<lparr> shortId = Some ''1a2b3c4d'', todoNumber = None, confirmTitle = None \<rparr> =
     Inr (Some (exTodo ''1a2b3c4d-aaaa-4aaa-8aaa-000000000001'' ''Buy milk'')) \<and>
   \<not> includesStr (toLowerCase (title (exTodo ''1a2b3c4d-aaaa-4aaa-8aaa-000000000001'' ''Buy milk'')))
        (toLowerCase ''dog'') \<and>
   resolveTodoReference collidingTodos
     \<lparr> shortId = Some ''1a2b3c4d'', todoNumber = None, confirmTitle = Some ''dog'' \<rparr> =
     Inl (TitleMismatch ''dog'' ''Buy milk'')"
proof -
  have c: "resolveTodoReference collidingTodos
     (\<lparr> shortId = Some ''1a2b3c4d'', todoNumber = None, confirmTitle = Some ''dog'' \<rparr>
        \<lparr>confirmTitle := None\<rparr>) =
     Inr (Some (exTodo ''1a2b3c4d-aaaa-4aaa-8aaa-000000000001'' ''Buy milk''))"
    by code_simp
  have n: "\<not> includesStr
               (toLowerCase (title (exTodo ''1a2b3c4d-aaaa-4aaa-8aaa-000000000001'' ''Buy milk'')))
               (toLowerCase ''dog'')"
    by code_simp
  have t: "title (exTodo ''1a2b3c4d-aaaa-4aaa-8aaa-000000000001'' ''Buy milk'') = ''Buy milk''"
    by (simp add: exTodo_def createTodo_def)
  from confirmTitle_mismatch[OF _ c n] c n t show ?thesis by simp
qed

text \<open>
  Claim C5 (decision order), as the code has it. A short id that is a non-empty
  string alone decides: the \<open>todoNumber\<close> is never consulted, a failed lookup is the
  not-found error, a successful one gives the candidate. Otherwise (no short id, or
  the empty string), when the \<open>todoNumber\<close> is an integer \<open>n\<close>, resolution fails with
  the invalid-number error exactly when \<open>n\<close> is outside \<open>[1, length todos]\<close>, and the
  candidate is \<open>todos[n - 1]\<close> when it is inside; with no \<open>todoNumber\<close> either,
  resolution fails with the no-identifier error. A candidate is returned after the
  title check (\<open>verifyTitle\<close>).
\<close>

theorem resolve_decision_order:
  "(truthy (shortId ref) \<longrightarrow>
      (\<forall>m. resolveTodoReference todos (ref\<lparr>todoNumber := m\<rparr>) = resolveTodoReference todos ref) \<and>
      (findTodoByShortId todos (the (shortId ref)) = None \<longrightarrow>
         resolveTodoReference todos ref = Inl (NoTodoWithShortId (the (shortId ref)))) \<and>
      (\<forall>todo. findTodoByShortId todos (the (shortId ref)) = Some todo \<longrightarrow>
         resolveTodoReference todos ref = verifyTitle ref todo)) \<and>
   (\<not> truthy (shortId ref) \<longrightarrow>
      (\<forall>n. todoNumber ref = Some (Finite (of_int n)) \<longrightarrow>
         ((resolveTodoReference todos ref = Inl (InvalidTodoNumber (Finite (of_int n)))) =
            (n < 1 \<or> int (length todos) < n)) \<and>
         (1 \<le> n \<and> n \<le> int (length todos) \<longrightarrow>
            resolveTodoReference todos ref = verifyTitle ref (todos ! nat (n - 1)))) \<and>
      (todoNumber ref = None \<longrightarrow> resolveTodoReference todos ref = Inl NoIdentifier))"
proof (intro conjI impI allI)
  fix m assume "truthy (shortId ref)"
  then show "resolveTodoReference todos (ref\<lparr>todoNumber := m\<rparr>) = resolveTodoReference todos ref"
    by (simp add: resolveTodoReference_def split: option.splits)
next
  assume "truthy (shortId ref)" "findTodoByShortId todos (the (shortId ref)) = None"
  then show "resolveTodoReference todos ref = Inl (NoTodoWithShortId (the (shortId ref)))"
    by (simp add: resolveTodoReference_def)
next
  fix todo assume "truthy (shortId ref)" "findTodoByShortId todos (the (shortId ref)) = Some todo"
  then show "resolveTodoReference todos ref = verifyTitle ref todo"
    by (simp add: resolveTodoReference_def verifyTitle_def)
next
  fix n :: int
  assume a: "\<not> truthy (shortId ref)" "todoNumber ref = Some (Finite (of_int n))"
  have range: "(lessThanZero (minusOne (Finite (of_int n))) \<or>
                atLeastLength (minusOne (Finite (of_int n))) (length todos)) =
               (n < 1 \<or> int (length todos) < n)"
    using integer_index_range[of n "length todos"] .
  show "(resolveTodoReference todos ref = Inl (InvalidTodoNumber (Finite (of_int n)))) =
            (n < 1 \<or> int (length todos) < n)"
  proof (cases "n < 1 \<or> int (length todos) < n")
    case True
    with a range show ?thesis by (simp add: resolveTodoReference_def Let_def)
  next
    case False
    with range have ok: "\<not> (lessThanZero (minusOne (Finite (of_int n))) \<or>
                atLeastLength (minusOne (Finite (of_int n))) (length todos))" by simp
    from False have "elementAt todos (minusOne (Finite (of_int n))) = Some (todos ! nat (n - 1))"
      by (simp add: integer_index_element)
    with a ok False show ?thesis
      by (simp add: resolveTodoReference_def Let_def)
  qed
next
  fix n :: int
  assume a: "\<not> truthy (shortId ref)" "todoNumber ref = Some (Finite (of_int n))"
    and inside: "1 \<le> n \<and> n \<le> int (length todos)"
  from inside have ok: "\<not> (lessThanZero (minusOne (Finite (of_int n))) \<or>
                atLeastLength (minusOne (Finite (of_int n))) (length todos))"
    using integer_index_range[of n "length todos"] by simp
  from inside have "elementAt todos (minusOne (Finite (of_int n))) = Some (todos ! nat (n - 1))"
    by (simp add: integer_index_element)
  with a ok show "resolveTodoReference todos ref = verifyTitle ref (todos ! nat (n - 1))"
    by (simp add: resolveTodoReference_def Let_def verifyTitle_def)
next
  assume "\<not> truthy (shortId ref)" "todoNumber ref = None"
  then show "resolveTodoReference todos ref = Inl NoIdentifier"
    by (simp add: resolveTodoReference_def)
qed

theorem resolve_decision_order_witness:
  "resolveTodoReference collidingTodos
     \<lparr> shortId = Some ''1a2b3c4d'', todoNumber = Some (Finite 2), confirmTitle = None \<rparr> =
     Inr (Some (exTodo ''1a2b3c4d-aaaa-4aaa-8aaa-000000000001'' ''Buy milk'')) \<and>
   resolveTodoReference collidingTodos
     \<lparr> shortId = Some ''99999999'', todoNumber = Some (Finite 2), confirmTitle = None \<rparr> =
     Inl (NoTodoWithShortId ''99999999'') \<and>
   resolveTodoReference collidingTodos
     \<lparr> shortId = None, todoNumber = Some (Finite 2), confirmTitle = None \<rparr> =
     Inr (Some (exTodo ''1a2b3c4d-bbbb-4bbb-8bbb-000000000002'' ''Walk dog'')) \<and>
   resolveTodoReference collidingTodos
     \<lparr> shortId = None, todoNumber = Some (Finite 3), confirmTitle = None \<rparr> =
     Inl (InvalidTodoNumber (Finite 3)) \<and>
   resolveTodoReference collidingTodos
     \<lparr> shortId = None, todoNumber = None, confirmTitle = None \<rparr> = Inl NoIdentifier"
proof -
  let ?two = "\<lparr> shortId = None, todoNumber = Some (Finite (of_int 2)), confirmTitle = None \<rparr>"
  let ?three = "\<lparr> shortId = None, todoNumber = Some (Finite (of_int 3)), confirmTitle = None \<rparr>"
  have f1: "findTodoByShortId collidingTodos ''1a2b3c4d'' =
              Some (exTodo ''1a2b3c4d-aaaa-4aaa-8aaa-000000000001'' ''Buy milk'')"
    by code_simp
  have f2: "findTodoByShortId collidingTodos ''99999999'' = None"
    by code_simp
  have n2: "collidingTodos ! Suc 0 = exTodo ''1a2b3c4d-bbbb-4bbb-8bbb-000000000002'' ''Walk dog''"
    by (simp add: collidingTodos_def)
  have len: "length collidingTodos = 2"
    by (simp add: collidingTodos_def)
  have absent2: "\<not> truthy (shortId ?two)" and absent3: "\<not> truthy (shortId ?three)"
    by (simp_all add: truthy_def)
  have number2: "todoNumber ?two = Some (Finite (of_int 2))"
    and number3: "todoNumber ?three = Some (Finite (of_int 3))"
    by simp_all
  show ?thesis
    using resolve_decision_order[of
        "\<lparr> shortId = Some ''1a2b3c4d'', todoNumber = Some (Finite 2), confirmTitle = None \<rparr>"
        collidingTodos]
      resolve_decision_order[of
        "\<lparr> shortId = Some ''99999999'', todoNumber = Some (Finite 2), confirmTitle = None \<rparr>"
        collidingTodos]
      resolve_decision_order[of ?two collidingTodos, THEN conjunct2, THEN mp, OF absent2,
        THEN conjunct1, THEN spec, of 2, THEN mp, OF number2]
      resolve_decision_order[of ?three collidingTodos, THEN conjunct2, THEN mp, OF absent3,
        THEN conjunct1, THEN spec, of 3, THEN mp, OF number3]
      resolve_decision_order[of
        "\<lparr> shortId = None, todoNumber = None, confirmTitle = None \<rparr>" collidingTodos]
    by (simp add: truthy_def verifyTitle_def f1 f2 n2 len)
qed

text \<open>
  Claim C5 as stated fails at an empty short id, which is present and not tried (the
  position decides, and without a position the error is the no-identifier one), and at
  a \<open>todoNumber\<close> that is no integer: for \<open>1.5\<close>, inside \<open>[1, 2]\<close>, and for \<open>NaN\<close>,
  outside it, resolution returns \<open>{todo: undefined}\<close>, neither an error nor a todo.
\<close>

theorem resolve_decision_order_counterexample:
  "resolveTodoReference collidingTodos
     \<lparr> shortId = Some [], todoNumber = Some (Finite 2), confirmTitle = None \<rparr> =
     Inr (Some (exTodo ''1a2b3c4d-bbbb-4bbb-8bbb-000000000002'' ''Walk dog'')) \<and>
   resolveTodoReference collidingTodos
     \<lparr> shortId = Some [], todoNumber = None, confirmTitle = None \<rparr> = Inl NoIdentifier \<and>
   resolveTodoReference collidingTodos
     \<lparr> shortId = None, todoNumber = Some (Finite (3 / 2)), confirmTitle = None \<rparr> = Inr None \<and>
   resolveTodoReference collidingTodos
     \<lparr> shortId = None, todoNumber = Some NaN, confirmTitle = None \<rparr> = Inr None"
  by code_simp

text \<open>
  Claim C10, as the code has it. A short id of fewer than eight characters never
  finds a todo. When it is not empty, resolution fails with the not-found error,
  whatever ids the todos have and whatever else the reference carries. When it is
  empty, it is treated as absent: the reference resolves as it does without its short
  id, by its \<open>todoNumber\<close>, and fails with the no-identifier error when it has none.
\<close>

theorem short_prefix_not_found:
  assumes "shortId ref = Some sid" and "length sid < 8"
  shows "findTodoByShortId todos sid = None \<and>
         (sid \<noteq> [] \<longrightarrow> resolveTodoReference todos ref = Inl (NoTodoWithShortId sid)) \<and>
         (sid = [] \<longrightarrow>
            resolveTodoReference todos ref = resolveTodoReference todos (ref\<lparr>shortId := None\<rparr>) \<and>
            (todoNumber ref = None \<longrightarrow> resolveTodoReference todos ref = Inl NoIdentifier))"
  using assms
  by (auto simp: resolveTodoReference_def truthy_def findTodoByShortId_def
           split: option.splits sum.splits)

text \<open>
  Seven characters that exactly one todo's id starts with, and the empty short id
  beside position 2.
\<close>

theorem short_prefix_not_found_witness:
  "length (shortIdMatches stabilityTodos ''2222222'') = 1 \<and>
   resolveTodoReference stabilityTodos
     \<lparr> shortId = Some ''2222222'', todoNumber = Some (Finite 2), confirmTitle = None \<rparr> =
     Inl (NoTodoWithShortId ''2222222'') \<and>
   resolveTodoReference stabilityTodos
     \<lparr> shortId = Some [], todoNumber = Some (Finite 2), confirmTitle = None \<rparr> =
     resolveTodoReference stabilityTodos
       \<lparr> shortId = None, todoNumber = Some (Finite 2), confirmTitle = None \<rparr> \<and>
   resolveTodoReference stabilityTodos
     \<lparr> shortId = Some [], todoNumber = None, confirmTitle = None \<rparr> = Inl NoIdentifier"
proof -
  have one: "length (shortIdMatches stabilityTodos ''2222222'') = 1"
    by code_simp
  have none: "resolveTodoReference stabilityTodos
       \<lparr> shortId = None, todoNumber = None, confirmTitle = None \<rparr> = Inl NoIdentifier"
    by (simp add: resolveTodoReference_def truthy_def)
  from short_prefix_not_found[of
      "\<lparr> shortId = Some ''2222222'', todoNumber = Some (Finite 2), confirmTitle = None \<rparr>"
      "''2222222''" stabilityTodos]
    short_prefix_not_found[of
      "\<lparr> shortId = Some [], todoNumber = Some (Finite 2), confirmTitle = None \<rparr>"
      "[]" stabilityTodos]
    short_prefix_not_found[of
      "\<lparr> shortId = Some [], todoNumber = None, confirmTitle = None \<rparr>"
      "[]" stabilityTodos] one none
  show ?thesis by simp
qed

text \<open>
  Claim C10 as stated fails at the empty short id, which is shorter than eight
  characters and a prefix of the single todo's id: the reference
  \<open>{shortId: "", todoNumber: 1}\<close> resolves to that todo.
\<close>

theorem short_prefix_counterexample:
  "length ([] :: string) < 8 \<and>
   length (shortIdMatches [exTodo ''1a2b3c4d-aaaa-4aaa-8aaa-000000000001'' ''Buy milk''] []) = 1 \<and>
   resolveTodoReference [exTodo ''1a2b3c4d-aaaa-4aaa-8aaa-000000000001'' ''Buy milk'']
     \<lparr> shortId = Some [], todoNumber = Some (Finite 1), confirmTitle = None \<rparr> =
     Inr (Some (exTodo ''1a2b3c4d-aaaa-4aaa-8aaa-000000000001'' ''Buy milk''))"
  by code_simp

section \<open>Mutations of a todo\<close>

text \<open>
  Claim C8, as the code has it. \<open>updateTodo\<close> copies every property of the payload
  onto the todo, \<open>id\<close> included. For every payload that carries no \<open>id\<close> (or the id
  the todo already has), the ids of all todos of the list, the updated one among them,
  are after the call what they were before.
\<close>

theorem updateTodo_keeps_ids:
  assumes "upd_id updates = None \<or> upd_id updates = Some todoId"
  shows "map item_id (fst (updateTodo todos todoId updates now)) = map item_id todos"
proof (cases "findTodoById todos todoId")
  case None
  then show ?thesis by (simp add: updateTodo_def)
next
  case (Some todo)
  have "map item_id (mutateFound (\<lambda>todo. item_id todo = todoId)
                       (\<lambda>todo. assign todo updates now) todos) =
        map item_id todos"
    using assms by (intro mutateFound_map) (auto simp: assign_def)
  with Some show ?thesis by (simp add: updateTodo_def)
qed

theorem updateTodo_keeps_ids_witness:
  "upd_id titleOnlyUpdate = None \<and>
   map item_id (fst (updateTodo collidingTodos ''1a2b3c4d-bbbb-4bbb-8bbb-000000000002''
                       titleOnlyUpdate 7)) =
     [''1a2b3c4d-aaaa-4aaa-8aaa-000000000001'', ''1a2b3c4d-bbbb-4bbb-8bbb-000000000002''] \<and>
   map title (fst (updateTodo collidingTodos ''1a2b3c4d-bbbb-4bbb-8bbb-000000000002''
                     titleOnlyUpdate 7)) =
     [''Buy milk'', ''Buy oat milk'']"
proof -
  have none: "upd_id titleOnlyUpdate = None"
    by (simp add: titleOnlyUpdate_def)
  have ids: "map item_id collidingTodos =
     [''1a2b3c4d-aaaa-4aaa-8aaa-000000000001'', ''1a2b3c4d-bbbb-4bbb-8bbb-000000000002'']"
    by (simp add: collidingTodos_def exTodo_def createTodo_def)
  have titles: "map title (fst (updateTodo collidingTodos ''1a2b3c4d-bbbb-4bbb-8bbb-000000000002''
                     titleOnlyUpdate 7)) = [''Buy milk'', ''Buy oat milk'']"
    by code_simp
  from updateTodo_keeps_ids[of titleOnlyUpdate "''1a2b3c4d-bbbb-4bbb-8bbb-000000000002''"
      collidingTodos 7] none ids titles
  show ?thesis by simp
qed

text \<open>
  Claim C8 as stated fails: a payload that carries an \<open>id\<close> replaces the id of the
  updated todo.
\<close>

theorem updateTodo_id_counterexample:
  "map item_id [exTodo ''1a2b3c4d-aaaa-4aaa-8aaa-000000000001'' ''Buy milk''] =
     [''1a2b3c4d-aaaa-4aaa-8aaa-000000000001''] \<and>
   updateTodo [exTodo ''1a2b3c4d-aaaa-4aaa-8aaa-000000000001'' ''Buy milk'']
       ''1a2b3c4d-aaaa-4aaa-8aaa-000000000001'' idOnlyUpdate 7 =
     ([(exTodo ''1a2b3c4d-aaaa-4aaa-8aaa-000000000001'' ''Buy milk'')
          \<lparr>item_id := ''ffffffff-ffff-4fff-8fff-ffffffffffff'', updatedAt := 7\<rparr>], True)"
  by code_simp

text \<open>
  Claim C9 (frame of \<open>completeTodo\<close>). If a todo with the id is present, the first
  such todo, at position \<open>i\<close>, gets \<open>completed = true\<close> and \<open>updatedAt = now\<close>, its
  other own_fields and every other position of the list stay as they are, and the call
  returns \<open>true\<close>. If no todo has the id, the call returns \<open>false\<close> and the list is
  unchanged.
\<close>

theorem completeTodo_frame:
  "((\<exists>todo\<in>set todos. item_id todo = todoId) \<longrightarrow>
      (\<exists>i<length todos. item_id (todos ! i) = todoId \<and> (\<forall>j<i. item_id (todos ! j) \<noteq> todoId) \<and>
         completeTodo todos todoId now =
           (todos[i := (todos ! i)\<lparr>completed := True, updatedAt := now\<rparr>], True))) \<and>
   ((\<forall>todo\<in>set todos. item_id todo \<noteq> todoId) \<longrightarrow> completeTodo todos todoId now = (todos, False))"
proof (intro conjI impI)
  assume "\<exists>todo\<in>set todos. item_id todo = todoId"
  then have "findIndex (\<lambda>todo. item_id todo = todoId) todos \<noteq> None"
    by (simp add: findIndex_None_iff)
  then obtain i where i: "findIndex (\<lambda>todo. item_id todo = todoId) todos = Some i" by auto
  then have "findTodoById todos todoId \<noteq> None"
    by (simp add: findTodoById_def find_None_findIndex)
  then obtain todo where "findTodoById todos todoId = Some todo" by auto
  with mutateFound_update[OF i, of "\<lambda>todo. todo\<lparr>completed := True, updatedAt := now\<rparr>"]
  show "\<exists>i<length todos. item_id (todos ! i) = todoId \<and> (\<forall>j<i. item_id (todos ! j) \<noteq> todoId) \<and>
         completeTodo todos todoId now =
           (todos[i := (todos ! i)\<lparr>completed := True, updatedAt := now\<rparr>], True)"
    by (auto simp: completeTodo_def)
next
  assume "\<forall>todo\<in>set todos. item_id todo \<noteq> todoId"
  then have "findTodoById todos todoId = None"
    by (simp add: findTodoById_def find_None_iff)
  then show "completeTodo todos todoId now = (todos, False)"
    by (simp add: completeTodo_def)
qed

theorem completeTodo_frame_witness:
  "(\<exists>todo\<in>set collidingTodos. item_id todo = ''1a2b3c4d-bbbb-4bbb-8bbb-000000000002'') \<and>
   completeTodo collidingTodos ''1a2b3c4d-bbbb-4bbb-8bbb-000000000002'' 9 =
     ([exTodo ''1a2b3c4d-aaaa-4aaa-8aaa-000000000001'' ''Buy milk'',
       (exTodo ''1a2b3c4d-bbbb-4bbb-8bbb-000000000002'' ''Walk dog'')
         \<lparr>completed := True, updatedAt := 9\<rparr>], True) \<and>
   ''no-such-id'' \<notin> item_id ` set collidingTodos \<and>
   completeTodo collidingTodos ''no-such-id'' 9 = (collidingTodos, False)"
proof -
  have ids: "map item_id collidingTodos =
     [''1a2b3c4d-aaaa-4aaa-8aaa-000000000001'', ''1a2b3c4d-bbbb-4bbb-8bbb-000000000002'']"
    by (simp add: collidingTodos_def exTodo_def createTodo_def)
  have present: "\<exists>todo\<in>set collidingTodos. item_id todo = ''1a2b3c4d-bbbb-4bbb-8bbb-000000000002''"
    by (simp add: collidingTodos_def exTodo_def createTodo_def)
  have absent: "\<forall>todo\<in>set collidingTodos. item_id todo \<noteq> ''no-such-id''"
    by (simp add: collidingTodos_def exTodo_def createTodo_def)
  from completeTodo_frame[of collidingTodos "''1a2b3c4d-bbbb-4bbb-8bbb-000000000002''" 9] present
  obtain i where i: "i < length collidingTodos"
      "item_id (collidingTodos ! i) = ''1a2b3c4d-bbbb-4bbb-8bbb-000000000002''"
      "completeTodo collidingTodos ''1a2b3c4d-bbbb-4bbb-8bbb-000000000002'' 9 =
         (collidingTodos[i := (collidingTodos ! i)\<lparr>completed := True, updatedAt := 9\<rparr>], True)"
    by blast
  from i(1) have "i = 0 \<or> i = 1" by (auto simp: collidingTodos_def)
  with i(2) have "i = 1" by (auto simp: collidingTodos_def exTodo_def createTodo_def)
  with i(3) have result: "completeTodo collidingTodos ''1a2b3c4d-bbbb-4bbb-8bbb-000000000002'' 9 =
     ([exTodo ''1a2b3c4d-aaaa-4aaa-8aaa-000000000001'' ''Buy milk'',
       (exTodo ''1a2b3c4d-bbbb-4bbb-8bbb-000000000002'' ''Walk dog'')
         \<lparr>completed := True, updatedAt := 9\<rparr>], True)"
    by (simp add: collidingTodos_def)
  from completeTodo_frame[of collidingTodos "''no-such-id''" 9] absent
  have unchanged: "completeTodo collidingTodos ''no-such-id'' 9 = (collidingTodos, False)" by blast
  have notIn: "''no-such-id'' \<notin> item_id ` set collidingTodos"
    using absent by auto
  show ?thesis using present result notIn unchanged by simp
qed

section \<open>Command sequences\<close>

text \<open>
  Claim C2 (abort on first failure), evaluated on a confirmed batch of three
  \<open>add_todo\<close> commands whose second has no title. \<open>handleAddTodo\<close> prints the missing
  title and returns, so the \<open>catch\<close> of the loop is not entered: the third command runs
  and the sequence is reported as completed.
\<close>

theorem batch_continues_after_failed_step:
  "(case handleCommandSequence exEnv (Some (map Some exBatch)) ''y'' exApp of
      Returned st \<Rightarrow> (map title (list_todos (hd (todoLists st))), console st)
    | Thrown st \<Rightarrow> ([], [])) =
   ([''Buy milk'', ''Walk dog''],
    [Suggested 3, ConfirmPrompt, Executing,
     Step 1 3, Added ''Buy milk'',
     Step 2 3, MissingTitle,
     Step 3 3, Added ''Walk dog'',
     SequenceCompleted])"
  by code_simp

text \<open>
  Claim C7 (confirmation before execution). For every answer whose trimmed, lower-cased form is
  neither \<open>y\<close> nor \<open>yes\<close>, \<open>handleCommandSequence\<close> leaves the state it was called
  with, the printed lines apart: the rendering of the sequence and the prompt, and the
  cancellation notice unless the answer was empty (or the format error when there is no
  \<open>commands\<close> array, or the rendering up to a command that cannot be rendered, where
  the call throws before it asks). No step is printed or run, and lists, current list
  and counter are as before; the loop runs only in the remaining case, after \<open>y\<close> or
  \<open>yes\<close>.
\<close>

theorem not_confirmed_no_execution:
  assumes "toLowerCase (trim answer) \<noteq> ''y''" and "toLowerCase (trim answer) \<noteq> ''yes''"
  shows "handleCommandSequence e cmds answer st =
           (case cmds of
              None \<Rightarrow> Returned (st\<lparr>console := console st @ [InvalidSequenceFormat]\<rparr>)
            | Some cs \<Rightarrow>
                if length (takeWhile renders cs) < length cs
                then Thrown (st\<lparr>console := console st @ [Suggested (length (takeWhile renders cs))]\<rparr>)
                else Returned (st\<lparr>console := console st @
                       [Suggested (length cs), ConfirmPrompt] @
                       (if toLowerCase (trim answer) = [] then [] else [SequenceCancelled])\<rparr>))"
proof (cases cmds)
  case None
  then show ?thesis by (simp add: handleCommandSequence_def say_def)
next
  case (Some cs)
  have shown: "length (takeWhile renders cs) = length cs"
    if "\<not> length (takeWhile renders cs) < length cs"
    using that length_takeWhile_le[of renders cs] by simp
  show ?thesis
  proof (cases "length (takeWhile renders cs) < length cs")
    case True
    with Some show ?thesis by (simp add: handleCommandSequence_def Let_def say_def)
  next
    case False
    with Some assms shown show ?thesis
      by (simp add: handleCommandSequence_def Let_def say_def)
  qed
qed

theorem not_confirmed_no_execution_witness:
  "toLowerCase (trim '' No '') \<noteq> ''y'' \<and> toLowerCase (trim '' No '') \<noteq> ''yes'' \<and>
   handleCommandSequence exEnv (Some (map Some exBatch)) '' No '' exApp =
     Returned (exApp\<lparr>console := [Suggested 3, ConfirmPrompt, SequenceCancelled]\<rparr>)"
proof -
  have a: "toLowerCase (trim '' No '') = ''no''"
    by code_simp
  have n1: "toLowerCase (trim '' No '') \<noteq> ''y''" and n2: "toLowerCase (trim '' No '') \<noteq> ''yes''"
    unfolding a by simp_all
  have shown: "length (takeWhile renders (map Some exBatch)) = 3"
    by code_simp
  have three: "length exBatch = 3"
    by (simp add: exBatch_def)
  have quiet: "console exApp = []"
    by (simp add: exApp_def)
  from not_confirmed_no_execution[OF n1 n2, of exEnv "Some (map Some exBatch)" exApp] n1 n2
  show ?thesis
    by (simp add: a shown three quiet)
qed

section \<open>Conversation history\<close>

text \<open>
  Claim C6, as the code has it. The history is trimmed once per exchange, after both
  turns are appended, not after each append. For every \<open>handleChatMessage\<close>, whatever
  the awaited handler does to the session, as long as it does not throw: when
  \<open>chatWithAI\<close> answers, the user's and the assistant's turn are appended and the last
  \<open>maxConversationHistory = 10\<close> entries of the result are kept, the oldest dropped
  first, so at most ten entries are left; when \<open>chatWithAI\<close> throws, nothing is
  recorded, and a history of at most ten entries stays one.
\<close>

theorem history_trimmed_per_exchange:
  assumes "\<not> handlerThrows handler reply c"
  shows "conversationHistory (handleChatMessageWith handler message reply c) =
           (case reply of
              None \<Rightarrow> conversationHistory c
            | Some response \<Rightarrow>
                (let h = conversationHistory c @ [''User: '' @ message, assistantTurn response]
                 in drop (length h - maxConversationHistory) h)) \<and>
         maxConversationHistory = 10 \<and>
         (reply \<noteq> None \<or> length (conversationHistory c) \<le> maxConversationHistory \<longrightarrow>
            length (conversationHistory (handleChatMessageWith handler message reply c))
              \<le> maxConversationHistory)"
proof -
  have history: "conversationHistory (handleChatMessageWith handler message reply c) =
           (case reply of
              None \<Rightarrow> conversationHistory c
            | Some response \<Rightarrow>
                (let h = conversationHistory c @ [''User: '' @ message, assistantTurn response]
                 in drop (length h - maxConversationHistory) h))"
  proof (cases reply)
    case None
    then show ?thesis by (simp add: handleChatMessageWith_def)
  next
    case (Some response)
    show ?thesis
    proof (cases "cmd_action (own_fields response) = ''conversational''")
      case True
      with Some show ?thesis
        by (simp add: handleChatMessageWith_def recordUser_def recordAssistant_def trimChat_def
                      trimHistory_drop Let_def del: drop_append)
    next
      case False
      with Some assms obtain st where "handler response (session c) = Returned st"
        by (cases "handler response (session c)") (auto simp: handlerThrows_def)
      with Some False show ?thesis
        by (simp add: handleChatMessageWith_def recordUser_def recordAssistant_def trimChat_def
                      trimHistory_drop Let_def del: drop_append)
    qed
  qed
  have ten: "maxConversationHistory = 10" by (simp add: maxConversationHistory_def)
  have bound: "length (conversationHistory (handleChatMessageWith handler message reply c))
              \<le> maxConversationHistory"
    if "reply \<noteq> None \<or> length (conversationHistory c) \<le> maxConversationHistory"
    using that unfolding history by (cases reply) (auto simp: Let_def)
  from history ten bound show ?thesis by blast
qed

text \<open>
  From ten entries: a conversational reply and an \<open>add_todo\<close> reply, whose handler
  returns, each leave the last ten of twelve entries.
\<close>

theorem history_trimmed_per_exchange_witness:
  "\<not> handlerThrows (handleParsedResponse exEnv []) (Some addReply) tenTurns \<and>
   length (conversationHistory tenTurns) = 10 \<and>
   conversationHistory (handleChatMessage exEnv ''add milk'' (Some addReply) [] tenTurns) =
     concat (replicate 4 [''User: hi'', ''Assistant: hello'']) @
       [''User: add milk'', ''Assistant: Executed add_todo command'']"
proof -
  have returns: "\<not> handlerThrows (handleParsedResponse exEnv []) (Some addReply) tenTurns"
    by code_simp
  have old: "conversationHistory tenTurns = concat (replicate 5 [''User: hi'', ''Assistant: hello''])"
    by (simp add: tenTurns_def)
  have turn: "assistantTurn addReply = ''Assistant: Executed add_todo command''"
    by (simp add: assistantTurn_def addReply_def addCommand_def)
  have ten: "length (conversationHistory tenTurns) = 10"
    by code_simp
  have kept: "(let h = conversationHistory tenTurns @ [''User: '' @ ''add milk'', assistantTurn addReply]
               in drop (length h - maxConversationHistory) h) =
     concat (replicate 4 [''User: hi'', ''Assistant: hello'']) @
       [''User: add milk'', ''Assistant: Executed add_todo command'']"
    unfolding turn by code_simp
  from history_trimmed_per_exchange[OF returns, of "''add milk''"] kept
  have "conversationHistory (handleChatMessage exEnv ''add milk'' (Some addReply) [] tenTurns) =
     concat (replicate 4 [''User: hi'', ''Assistant: hello'']) @
       [''User: add milk'', ''Assistant: Executed add_todo command'']"
    by (simp add: handleChatMessage_def)
  with returns ten show ?thesis by simp
qed

text \<open>
  Claim C6 as stated fails. With ten entries stored, appending the user's turn leaves
  eleven, and nothing is evicted while the handler runs. When the handler throws, as
  on the reply \<open>{action: "switch_list", name: 5}\<close>, the trimming is skipped: eleven
  entries stay after the first such message and twelve after the second.
\<close>

theorem history_bound_counterexample:
  "length (conversationHistory tenTurns) = 10 \<and>
   length (conversationHistory (recordUser ''go'' tenTurns)) = 11 \<and>
   handleParsedResponse exEnv [] numberNameReply exApp = Thrown exApp \<and>
   length (conversationHistory
     (handleChatMessage exEnv ''go'' (Some numberNameReply) [] tenTurns)) = 11 \<and>
   length (conversationHistory
     (handleChatMessage exEnv ''go'' (Some numberNameReply) []
        (handleChatMessage exEnv ''go'' (Some numberNameReply) [] tenTurns))) = 12"
  by code_simp

end
